theory Spec2Isabelle
  imports Main "HOL-Library.Word"
begin

unbundle bit_operations_syntax

section \<open>Scalars: IEEE-754 binary64 values as bit patterns\<close>

text \<open>
  The message fields written by \<^verbatim>\<open>rigid_body_publisher.cpp\<close> are C++ \<^verbatim>\<open>double\<close>s. The
  code only copies them, negates them (unary minus) and compares one of them with itself,
  so a value is modelled by its 64-bit pattern: sign bit 63, exponent bits 62..52,
  fraction bits 51..0. Unary minus flips the sign bit (also of a NaN and of a zero);
  a NaN has all exponent bits set and a fraction that is not zero.

  The header that declares \<^verbatim>\<open>RigidBody\<close> is not among the sources. Its pose fields are
  taken at the width of the message fields they are assigned to: widening a narrower
  IEEE value is exact, keeps a NaN a NaN and commutes with unary minus.
\<close>

type_synonym float64 = "64 word"

definition float_neg :: "float64 \<Rightarrow> float64" where
  "float_neg a = a XOR 0x8000000000000000"

definition float_isnan :: "float64 \<Rightarrow> bool" where
  "float_isnan a \<longleftrightarrow> 0x7FF0000000000000 < (a AND 0x7FFFFFFFFFFFFFFF)"

definition float_iszero :: "float64 \<Rightarrow> bool" where
  "float_iszero a \<longleftrightarrow> a AND 0x7FFFFFFFFFFFFFFF = 0"

text \<open>
  The C++ operator \<^verbatim>\<open>!=\<close> on doubles: true when either operand is a NaN; the two zeros
  compare equal; every other pair is unequal exactly when the bit patterns differ.
\<close>

definition float_ne :: "float64 \<Rightarrow> float64 \<Rightarrow> bool" where
  "float_ne a b \<longleftrightarrow>
     (if float_isnan a \<or> float_isnan b then True
      else if float_iszero a \<and> float_iszero b then False
      else a \<noteq> b)"

section \<open>Data model\<close>

text \<open>\<^verbatim>\<open>rclcpp::Time\<close>, read as a count of nanoseconds.\<close>

type_synonym Time = int

record Header =
  stamp :: Time
  frame_id :: string

record Point =
  p_x :: float64
  p_y :: float64
  p_z :: float64

record Quaternion =
  q_x :: float64
  q_y :: float64
  q_z :: float64
  q_w :: float64

text \<open>
  \<^verbatim>\<open>body.pose\<close> and \<^verbatim>\<open>geometry_msgs::msg::Pose\<close> have the same shape
  (\<^verbatim>\<open>position.x/y/z\<close>, \<^verbatim>\<open>orientation.x/y/z/w\<close>); one record serves both.
\<close>

record Pose =
  position :: Point
  orientation :: Quaternion

record PoseStamped =
  ps_header :: Header
  ps_pose :: Pose

text \<open>
  Modelled from the spec: the class \<^verbatim>\<open>RigidBody\<close> is declared outside the sources. The
  spec gives a sample an integer identifier, a position, an orientation and a validity
  flag; the source reads \<^verbatim>\<open>bodyId\<close> and \<^verbatim>\<open>pose\<close>.
\<close>

record RigidBody =
  bodyId :: int
  body_pose :: Pose
  isTrackingValid :: bool

text \<open>
  Modelled from the spec: the member \<^verbatim>\<open>RigidBody::hasValidData\<close> is defined outside the
  sources. The spec calls what it tests the validity flag of the sample.
\<close>

definition hasValidData :: "RigidBody \<Rightarrow> bool" where
  "hasValidData body = isTrackingValid body"

text \<open>
  A default-constructed ROS message (\<^verbatim>\<open>MessageInitialization::ALL\<close>): numbers are
  \<open>+0.0\<close>, strings empty, and the \<^verbatim>\<open>w\<close> of a quaternion is \<open>1.0\<close>.
\<close>

definition Header_init :: Header where
  "Header_init = \<lparr>stamp = 0, frame_id = ''''\<rparr>"

definition Point_init :: Point where
  "Point_init = \<lparr>p_x = 0, p_y = 0, p_z = 0\<rparr>"

definition Quaternion_init :: Quaternion where
  "Quaternion_init = \<lparr>q_x = 0, q_y = 0, q_z = 0, q_w = 0x3FF0000000000000\<rparr>"

definition Pose_init :: Pose where
  "Pose_init = \<lparr>position = Point_init, orientation = Quaternion_init\<rparr>"

definition PoseStamped_init :: PoseStamped where
  "PoseStamped_init = \<lparr>ps_header = Header_init, ps_pose = Pose_init\<rparr>"

section \<open>The coordinate adapter\<close>

text \<open>
  \<^verbatim>\<open>utilities::getRosPose\<close>, lines 43--72: seven assignments to the fields of a
  default-constructed \<^verbatim>\<open>PoseStamped\<close>, in the source's order, in each branch.
\<close>

definition getRosPose :: "RigidBody \<Rightarrow> bool \<Rightarrow> PoseStamped" where
  "getRosPose body newCoordinates =
     (let poseStampedMsg = PoseStamped_init;
          pos = position (ps_pose poseStampedMsg);
          ori = orientation (ps_pose poseStampedMsg)
      in if newCoordinates then
           (let pos = pos\<lparr>p_x := p_x (position (body_pose body))\<rparr>;
                pos = pos\<lparr>p_y := p_y (position (body_pose body))\<rparr>;
                pos = pos\<lparr>p_z := p_z (position (body_pose body))\<rparr>;
                ori = ori\<lparr>q_x := q_x (orientation (body_pose body))\<rparr>;
                ori = ori\<lparr>q_y := q_y (orientation (body_pose body))\<rparr>;
                ori = ori\<lparr>q_z := q_z (orientation (body_pose body))\<rparr>;
                ori = ori\<lparr>q_w := q_w (orientation (body_pose body))\<rparr>
            in poseStampedMsg\<lparr>ps_pose := \<lparr>position = pos, orientation = ori\<rparr>\<rparr>)
         else
           (let pos = pos\<lparr>p_x := p_x (position (body_pose body))\<rparr>;
                pos = pos\<lparr>p_y := float_neg (p_z (position (body_pose body)))\<rparr>;
                pos = pos\<lparr>p_z := p_y (position (body_pose body))\<rparr>;
                ori = ori\<lparr>q_x := q_x (orientation (body_pose body))\<rparr>;
                ori = ori\<lparr>q_y := float_neg (q_z (orientation (body_pose body)))\<rparr>;
                ori = ori\<lparr>q_z := q_y (orientation (body_pose body))\<rparr>;
                ori = ori\<lparr>q_w := q_w (orientation (body_pose body))\<rparr>
            in poseStampedMsg\<lparr>ps_pose := \<lparr>position = pos, orientation = ori\<rparr>\<rparr>))"

text \<open>
  Feeding an adapted pose to the adapter again: the sample keeps its identifier and its
  validity flag and takes the pose of the message.
\<close>

definition with_pose :: "RigidBody \<Rightarrow> PoseStamped \<Rightarrow> RigidBody" where
  "with_pose body msg = body\<lparr>body_pose := ps_pose msg\<rparr>"

definition reapply_old :: "RigidBody \<Rightarrow> RigidBody" where
  "reapply_old body = with_pose body (getRosPose body False)"

section \<open>Messages and sinks\<close>

record Pose2D =
  pose2d_x :: float64
  pose2d_y :: float64
  pose2d_theta :: float64

record Vector3 =
  v_x :: float64
  v_y :: float64
  v_z :: float64

record Twist =
  linear :: Vector3
  angular :: Vector3

record PoseWithCovariance =
  pwc_pose :: Pose
  pwc_covariance :: "float64 list"

record TwistWithCovariance =
  twc_twist :: Twist
  twc_covariance :: "float64 list"

record Odometry =
  od_header :: Header
  od_child_frame_id :: string
  od_pose :: PoseWithCovariance
  od_twist :: TwistWithCovariance

record Transform =
  translation :: Vector3
  rotation :: Quaternion

record TransformStamped =
  ts_header :: Header
  ts_child_frame_id :: string
  ts_transform :: Transform

definition Pose2D_init :: Pose2D where
  "Pose2D_init = \<lparr>pose2d_x = 0, pose2d_y = 0, pose2d_theta = 0\<rparr>"

definition Vector3_init :: Vector3 where
  "Vector3_init = \<lparr>v_x = 0, v_y = 0, v_z = 0\<rparr>"

definition Twist_init :: Twist where
  "Twist_init = \<lparr>linear = Vector3_init, angular = Vector3_init\<rparr>"

definition PoseWithCovariance_init :: PoseWithCovariance where
  "PoseWithCovariance_init = \<lparr>pwc_pose = Pose_init, pwc_covariance = replicate 36 0\<rparr>"

definition TwistWithCovariance_init :: TwistWithCovariance where
  "TwistWithCovariance_init = \<lparr>twc_twist = Twist_init, twc_covariance = replicate 36 0\<rparr>"

definition Odometry_init :: Odometry where
  "Odometry_init =
     \<lparr>od_header = Header_init, od_child_frame_id = [],
      od_pose = PoseWithCovariance_init, od_twist = TwistWithCovariance_init\<rparr>"

definition Transform_init :: Transform where
  "Transform_init = \<lparr>translation = Vector3_init, rotation = Quaternion_init\<rparr>"

definition TransformStamped_init :: TransformStamped where
  "TransformStamped_init =
     \<lparr>ts_header = Header_init, ts_child_frame_id = [], ts_transform = Transform_init\<rparr>"

text \<open>
  What the middleware receives: a message handed to a publisher created on a topic, or a
  transform handed to the broadcaster. The world is the list of everything handed over
  so far, oldest first.
\<close>

datatype emission =
    PosePublished string PoseStamped
  | Pose2DPublished string Pose2D
  | OdometryPublished string Odometry
  | TransformSent TransformStamped

type_synonym world = "emission list"

text \<open>
  \<^verbatim>\<open>posePublisher\<close>, \<^verbatim>\<open>pose2dPublisher\<close> and \<^verbatim>\<open>odometry_publisher_\<close> are shared pointers
  that stay null unless the constructor creates them; calling through a null one is the
  failure of the model.
\<close>

datatype error = NullPublisher

text \<open>
  Modelled from the spec: the struct \<^verbatim>\<open>PublisherConfiguration\<close> is declared outside the
  sources. Its fields are those the spec lists for the configuration of a body, which
  are the ones the source reads.
\<close>

record PublisherConfiguration =
  rigidBodyId :: int
  poseTopicName :: string
  pose2dTopicName :: string
  odomTopicName :: string
  childFrameId :: string
  parentFrameId :: string
  publishPose :: bool
  publishPose2d :: bool
  publishOdom :: bool
  publishTf :: bool

text \<open>
  A publisher created by \<^verbatim>\<open>create_publisher\<close> is known by its topic; the member
  \<^verbatim>\<open>odometry_publisher_\<close> is written without its trailing underscore. The transform
  broadcaster \<^verbatim>\<open>tfPublisher\<close> is always constructed and has no field here.
\<close>

record RigidBodyPublisher =
  config :: PublisherConfiguration
  posePublisher :: "string option"
  pose2dPublisher :: "string option"
  odometry_publisher :: "string option"
  useNewCoordinates :: bool

section \<open>The per-body publisher\<close>

text \<open>
  The constructor, lines 75--91. The class \<^verbatim>\<open>Version\<close> is declared outside the sources:
  its comparison \<^verbatim>\<open>>=\<close> and its constructor from a string are the parameters
  \<open>version_ge\<close> and \<open>Version\<close>.
\<close>

definition RigidBodyPublisher_new ::
  "('v \<Rightarrow> 'v \<Rightarrow> bool) \<Rightarrow> (string \<Rightarrow> 'v) \<Rightarrow> 'v \<Rightarrow> PublisherConfiguration \<Rightarrow> RigidBodyPublisher"
where
  "RigidBodyPublisher_new version_ge Version natNetVersion cfg =
     \<lparr>config = cfg,
      posePublisher = (if publishPose cfg then Some (poseTopicName cfg) else None),
      pose2dPublisher = (if publishPose2d cfg then Some (pose2dTopicName cfg) else None),
      odometry_publisher = (if publishOdom cfg then Some (odomTopicName cfg) else None),
      useNewCoordinates = version_ge natNetVersion (Version ''1.7'')\<rparr>"

text \<open>Lines 115--119: the pose sink. The frame label is written into the local pose.\<close>

definition publish_pose_block ::
  "RigidBodyPublisher \<Rightarrow> PoseStamped \<Rightarrow> world \<Rightarrow> error + (PoseStamped \<times> world)"
where
  "publish_pose_block p pose w =
     (if publishPose (config p) then
        (let pose = pose\<lparr>ps_header := (ps_header pose)\<lparr>frame_id := parentFrameId (config p)\<rparr>\<rparr>
         in case posePublisher p of
              None \<Rightarrow> Inl NullPublisher
            | Some topic \<Rightarrow> Inr (pose, w @ [PosePublished topic pose]))
      else Inr (pose, w))"

text \<open>
  \<^verbatim>\<open>tf2::Quaternion\<close> holds the four numbers it is constructed from; \<^verbatim>\<open>tf2::getYaw\<close>
  belongs to the tf2 library and is the parameter \<open>getYaw\<close> of the publish operation.
\<close>

type_synonym tf2_Quaternion = "float64 \<times> float64 \<times> float64 \<times> float64"

text \<open>Lines 126--134: the planar-pose sink.\<close>

definition publish_pose2d_block ::
  "(tf2_Quaternion \<Rightarrow> float64) \<Rightarrow> RigidBodyPublisher \<Rightarrow> PoseStamped \<Rightarrow> tf2_Quaternion \<Rightarrow> world
     \<Rightarrow> error + world"
where
  "publish_pose2d_block getYaw p pose q w =
     (if publishPose2d (config p) then
        (let pose2d = Pose2D_init;
             pose2d = pose2d\<lparr>pose2d_x := p_x (position (ps_pose pose))\<rparr>;
             pose2d = pose2d\<lparr>pose2d_y := p_y (position (ps_pose pose))\<rparr>;
             pose2d = pose2d\<lparr>pose2d_theta := getYaw q\<rparr>
         in case pose2dPublisher p of
              None \<Rightarrow> Inl NullPublisher
            | Some topic \<Rightarrow> Inr (w @ [Pose2DPublished topic pose2d]))
      else Inr w)"

text \<open>
  Lines 157--167: the loop over \<^verbatim>\<open>index = 0 .. 5\<close> writes entry \<^verbatim>\<open>index\<close> of the array
  \<^verbatim>\<open>pose_covariance_diagonal\<close> (six zeros) to entry \<^verbatim>\<open>6 * index + index\<close> of the
  36-entry covariance.
\<close>

definition pose_covariance_diagonal :: "float64 list" where
  "pose_covariance_diagonal = replicate 6 0"

definition set_covariance_diagonal :: "float64 list \<Rightarrow> float64 list" where
  "set_covariance_diagonal covariance =
     fold (\<lambda>index covariance.
             (let diagonal_index = 6 * index + index
              in covariance[diagonal_index := pose_covariance_diagonal ! index]))
          [0..<6] covariance"

text \<open>Lines 136--170: the odometry sink.\<close>

definition publish_odom_block ::
  "RigidBodyPublisher \<Rightarrow> Time \<Rightarrow> PoseStamped \<Rightarrow> world \<Rightarrow> error + world"
where
  "publish_odom_block p time pose w =
     (if publishOdom (config p) then
        (let m = Odometry_init;
             m = m\<lparr>od_twist := TwistWithCovariance_init\<rparr>;
             m = m\<lparr>od_header := (od_header m)\<lparr>frame_id := parentFrameId (config p)\<rparr>\<rparr>;
             m = m\<lparr>od_child_frame_id := childFrameId (config p)\<rparr>;
             m = m\<lparr>od_header := (od_header m)\<lparr>stamp := time\<rparr>\<rparr>;
             pos = position (pwc_pose (od_pose m));
             pos = pos\<lparr>p_x := p_x (position (ps_pose pose))\<rparr>;
             pos = pos\<lparr>p_y := p_y (position (ps_pose pose))\<rparr>;
             pos = pos\<lparr>p_z := p_z (position (ps_pose pose))\<rparr>;
             ori = orientation (pwc_pose (od_pose m));
             ori = ori\<lparr>q_x := q_x (orientation (ps_pose pose))\<rparr>;
             ori = ori\<lparr>q_y := q_y (orientation (ps_pose pose))\<rparr>;
             ori = ori\<lparr>q_z := q_z (orientation (ps_pose pose))\<rparr>;
             ori = ori\<lparr>q_w := q_w (orientation (ps_pose pose))\<rparr>;
             m = m\<lparr>od_pose := (od_pose m)\<lparr>pwc_pose := \<lparr>position = pos, orientation = ori\<rparr>\<rparr>\<rparr>;
             m = m\<lparr>od_pose := (od_pose m)
                    \<lparr>pwc_covariance := set_covariance_diagonal (pwc_covariance (od_pose m))\<rparr>\<rparr>
         in case odometry_publisher p of
              None \<Rightarrow> Inl NullPublisher
            | Some topic \<Rightarrow> Inr (w @ [OdometryPublished topic m]))
      else Inr w)"

text \<open>Lines 172--184: the transform sink.\<close>

definition publish_tf_block ::
  "RigidBodyPublisher \<Rightarrow> Time \<Rightarrow> PoseStamped \<Rightarrow> world \<Rightarrow> error + world"
where
  "publish_tf_block p time pose w =
     (if publishTf (config p) then
        (let m = TransformStamped_init;
             m = m\<lparr>ts_header := (ts_header m)\<lparr>frame_id := parentFrameId (config p)\<rparr>\<rparr>;
             m = m\<lparr>ts_header := (ts_header m)\<lparr>stamp := time\<rparr>\<rparr>;
             m = m\<lparr>ts_child_frame_id := childFrameId (config p)\<rparr>;
             m = m\<lparr>ts_transform := (ts_transform m)\<lparr>rotation := orientation (ps_pose pose)\<rparr>\<rparr>;
             tr = translation (ts_transform m);
             tr = tr\<lparr>v_x := p_x (position (ps_pose pose))\<rparr>;
             tr = tr\<lparr>v_y := p_y (position (ps_pose pose))\<rparr>;
             tr = tr\<lparr>v_z := p_z (position (ps_pose pose))\<rparr>;
             m = m\<lparr>ts_transform := (ts_transform m)\<lparr>translation := tr\<rparr>\<rparr>
         in Inr (w @ [TransformSent m]))
      else Inr w)"

text \<open>
  \<^verbatim>\<open>RigidBodyPublisher::publish\<close>, lines 98--185: the two early returns, the adapter,
  the time stamp, then the four sinks in the source's order. The operation reads the
  members of the publisher and assigns none of them.
\<close>

definition RigidBodyPublisher_publish ::
  "(tf2_Quaternion \<Rightarrow> float64) \<Rightarrow> RigidBodyPublisher \<Rightarrow> Time \<Rightarrow> RigidBody \<Rightarrow> world
     \<Rightarrow> error + world"
where
  "RigidBodyPublisher_publish getYaw p time body w =
     (if \<not> hasValidData body then Inr w
      else if float_ne (p_x (position (body_pose body))) (p_x (position (body_pose body)))
      then Inr w
      else
        (let pose = getRosPose body (useNewCoordinates p);
             pose = pose\<lparr>ps_header := (ps_header pose)\<lparr>stamp := time\<rparr>\<rparr>
         in case publish_pose_block p pose w of
              Inl e \<Rightarrow> Inl e
            | Inr (pose, w) \<Rightarrow>
                (let q = (q_x (orientation (ps_pose pose)), q_y (orientation (ps_pose pose)),
                          q_z (orientation (ps_pose pose)), q_w (orientation (ps_pose pose)))
                 in case publish_pose2d_block getYaw p pose q w of
                      Inl e \<Rightarrow> Inl e
                    | Inr w \<Rightarrow>
                        (case publish_odom_block p time pose w of
                           Inl e \<Rightarrow> Inl e
                         | Inr w \<Rightarrow> publish_tf_block p time pose w))))"

section \<open>The dispatcher\<close>

text \<open>
  The constructor, lines 188--198: \<^verbatim>\<open>rigidBodyPublisherMap[config.rigidBodyId] = ...\<close>
  for each configuration in list order, starting from the empty map.
\<close>

type_synonym RigidBodyPublisherMap = "int \<rightharpoonup> RigidBodyPublisher"

definition RigidBodyPublishDispatcher_new ::
  "('v \<Rightarrow> 'v \<Rightarrow> bool) \<Rightarrow> (string \<Rightarrow> 'v) \<Rightarrow> 'v \<Rightarrow> PublisherConfiguration list
     \<Rightarrow> RigidBodyPublisherMap"
where
  "RigidBodyPublishDispatcher_new version_ge Version natNetVersion configs =
     fold (\<lambda>cfg rigidBodyPublisherMap.
             rigidBodyPublisherMap(rigidBodyId cfg \<mapsto>
               RigidBodyPublisher_new version_ge Version natNetVersion cfg))
          configs Map.empty"

text \<open>
  \<^verbatim>\<open>RigidBodyPublishDispatcher::publish\<close>, lines 200--213: the loop over the batch, with
  \<^verbatim>\<open>find\<close> on the map. A failure inside a publisher ends the run.
\<close>

fun RigidBodyPublishDispatcher_publish ::
  "(tf2_Quaternion \<Rightarrow> float64) \<Rightarrow> RigidBodyPublisherMap \<Rightarrow> Time \<Rightarrow> RigidBody list \<Rightarrow> world
     \<Rightarrow> error + world"
where
  "RigidBodyPublishDispatcher_publish getYaw rigidBodyPublisherMap time [] w = Inr w"
| "RigidBodyPublishDispatcher_publish getYaw rigidBodyPublisherMap time (rigidBody # rest) w =
     (case rigidBodyPublisherMap (bodyId rigidBody) of
        None \<Rightarrow> RigidBodyPublishDispatcher_publish getYaw rigidBodyPublisherMap time rest w
      | Some publisher \<Rightarrow>
          (case RigidBodyPublisher_publish getYaw publisher time rigidBody w of
             Inl e \<Rightarrow> Inl e
           | Inr w' \<Rightarrow>
               RigidBodyPublishDispatcher_publish getYaw rigidBodyPublisherMap time rest w'))"

section \<open>Reading the world\<close>

text \<open>The odometry messages and the planar-pose messages in a world, oldest first.\<close>

fun odometry_messages :: "world \<Rightarrow> Odometry list" where
  "odometry_messages [] = []"
| "odometry_messages (OdometryPublished topic m # w) = m # odometry_messages w"
| "odometry_messages (e # w) = odometry_messages w"

fun pose2d_messages :: "world \<Rightarrow> Pose2D list" where
  "pose2d_messages [] = []"
| "pose2d_messages (Pose2DPublished topic m # w) = m # pose2d_messages w"
| "pose2d_messages (e # w) = pose2d_messages w"

text \<open>
  An emission carries the pose \<open>P\<close>: the pose and odometry messages hold it whole, the
  transform holds its orientation and its position, the planar pose holds its X and Y
  and the yaw of its orientation.
\<close>

fun carries_pose :: "(tf2_Quaternion \<Rightarrow> float64) \<Rightarrow> Pose \<Rightarrow> emission \<Rightarrow> bool" where
  "carries_pose getYaw P (PosePublished topic m) \<longleftrightarrow> ps_pose m = P"
| "carries_pose getYaw P (Pose2DPublished topic m) \<longleftrightarrow>
     pose2d_x m = p_x (position P) \<and> pose2d_y m = p_y (position P) \<and>
     pose2d_theta m = getYaw (q_x (orientation P), q_y (orientation P),
                              q_z (orientation P), q_w (orientation P))"
| "carries_pose getYaw P (OdometryPublished topic m) \<longleftrightarrow> pwc_pose (od_pose m) = P"
| "carries_pose getYaw P (TransformSent m) \<longleftrightarrow>
     rotation (ts_transform m) = orientation P \<and>
     v_x (translation (ts_transform m)) = p_x (position P) \<and>
     v_y (translation (ts_transform m)) = p_y (position P) \<and>
     v_z (translation (ts_transform m)) = p_z (position P)"

text \<open>What one call of a publisher's publish operation hands over, from an empty world.\<close>

definition emitted_by ::
  "(tf2_Quaternion \<Rightarrow> float64) \<Rightarrow> RigidBodyPublisher \<Rightarrow> Time \<Rightarrow> RigidBody \<Rightarrow> emission list"
where
  "emitted_by getYaw p time body =
     (case RigidBodyPublisher_publish getYaw p time body [] of
        Inl e \<Rightarrow> []
      | Inr msgs \<Rightarrow> msgs)"

section \<open>Sample inputs\<close>

text \<open>
  Concrete values for the parameters, used where a statement is evaluated: versions as
  \<open>100 * major + minor\<close> with the order of the naturals, a yaw that returns the Y
  component of the quaternion it is given, a configuration with chosen sink flags and a
  sample at position \<open>(x, 2.0, 3.0)\<close> with orientation \<open>(0.5, 0.5, 0.5, 0.5)\<close>.
  In bit patterns \<open>1.0\<close> is \<open>0x3FF0000000000000\<close>, \<open>2.0\<close> is \<open>0x4000000000000000\<close>,
  \<open>3.0\<close> is \<open>0x4008000000000000\<close>, \<open>0.5\<close> is \<open>0x3FE0000000000000\<close>, a negative number
  has bit 63 set as well, and \<open>0x7FF8000000000000\<close> is a NaN.
\<close>

definition sample_version_ge :: "nat \<Rightarrow> nat \<Rightarrow> bool" where
  "sample_version_ge a b \<longleftrightarrow> b \<le> a"

definition sample_Version :: "string \<Rightarrow> nat" where
  "sample_Version s = (if s = ''1.7'' then 107 else 0)"

definition sample_getYaw :: "tf2_Quaternion \<Rightarrow> float64" where
  "sample_getYaw q = fst (snd q)"

definition sample_config ::
  "int \<Rightarrow> bool \<Rightarrow> bool \<Rightarrow> bool \<Rightarrow> bool \<Rightarrow> PublisherConfiguration"
where
  "sample_config i f_pose f_pose2d f_odom f_tf =
     \<lparr>rigidBodyId = i, poseTopicName = ''pose'', pose2dTopicName = ''pose2d'',
      odomTopicName = ''odom'', childFrameId = ''body'', parentFrameId = ''world'',
      publishPose = f_pose, publishPose2d = f_pose2d, publishOdom = f_odom,
      publishTf = f_tf\<rparr>"

definition sample_body :: "int \<Rightarrow> bool \<Rightarrow> float64 \<Rightarrow> RigidBody" where
  "sample_body i valid x =
     \<lparr>bodyId = i,
      body_pose =
        \<lparr>position = \<lparr>p_x = x, p_y = 0x4000000000000000, p_z = 0x4008000000000000\<rparr>,
         orientation = \<lparr>q_x = 0x3FE0000000000000, q_y = 0x3FE0000000000000,
                        q_z = 0x3FE0000000000000, q_w = 0x3FE0000000000000\<rparr>\<rparr>,
      isTrackingValid = valid\<rparr>"

text \<open>
  A valid sample whose position X is \<open>1.0\<close> while other components are NaNs and
  infinities.
\<close>

definition sample_body_nan_elsewhere :: RigidBody where
  "sample_body_nan_elsewhere =
     \<lparr>bodyId = 1,
      body_pose =
        \<lparr>position = \<lparr>p_x = 0x3FF0000000000000, p_y = 0x7FF8000000000000,
                      p_z = 0x7FF0000000000000\<rparr>,
         orientation = \<lparr>q_x = 0x7FF8000000000000, q_y = 0xFFF0000000000000,
                        q_z = 0x7FF8000000000001, q_w = 0x7FF0000000000000\<rparr>\<rparr>,
      isTrackingValid = True\<rparr>"

section \<open>Facts about the scalars\<close>

lemma float_neg_involution: "float_neg (float_neg a) = a"
  by (simp add: float_neg_def xor.assoc)

lemma float_ne_self: "float_ne a a \<longleftrightarrow> float_isnan a"
  by (simp add: float_ne_def)

section \<open>The publisher as constructed\<close>

text \<open>
  The covariance loop writes zeros over zeros: on the zeroed covariance of a fresh
  message it changes nothing.
\<close>

lemma fold_fixed: "(\<And>i. i \<in> set js \<Longrightarrow> f i c = c) \<Longrightarrow> fold f js c = c"
  by (induction js) auto

lemma replicate_update_same: "(replicate n x)[i := x] = replicate n x"
  by (cases "i < n") (simp_all add: list_eq_iff_nth_eq nth_list_update)

lemma set_covariance_diagonal_zero: "set_covariance_diagonal (replicate 36 0) = replicate 36 0"
  unfolding set_covariance_diagonal_def
  by (rule fold_fixed) (simp add: pose_covariance_diagonal_def Let_def replicate_update_same)

lemma new_sel:
  "config (RigidBodyPublisher_new ge V v cfg) = cfg"
  "useNewCoordinates (RigidBodyPublisher_new ge V v cfg) = ge v (V ''1.7'')"
  by (simp_all add: RigidBodyPublisher_new_def)

text \<open>
  Each sink of a constructed publisher: its pointer is set exactly when its flag is, so
  the block never fails and hands over one message when the flag is set.
\<close>

lemma publish_pose_block_new:
  "publish_pose_block (RigidBodyPublisher_new ge V v cfg) pose w =
     (if publishPose cfg
      then Inr (pose\<lparr>ps_header := (ps_header pose)\<lparr>frame_id := parentFrameId cfg\<rparr>\<rparr>,
             w @ [PosePublished (poseTopicName cfg)
                    (pose\<lparr>ps_header := (ps_header pose)\<lparr>frame_id := parentFrameId cfg\<rparr>\<rparr>)])
      else Inr (pose, w))"
  by (simp add: publish_pose_block_def RigidBodyPublisher_new_def Let_def)

lemma publish_pose2d_block_new:
  "publish_pose2d_block gy (RigidBodyPublisher_new ge V v cfg) pose q w =
     (if publishPose2d cfg
      then Inr (w @ [Pose2DPublished (pose2dTopicName cfg)
                 \<lparr>pose2d_x = p_x (position (ps_pose pose)),
                  pose2d_y = p_y (position (ps_pose pose)), pose2d_theta = gy q\<rparr>])
      else Inr w)"
  by (simp add: publish_pose2d_block_def RigidBodyPublisher_new_def Let_def Pose2D_init_def)

lemma publish_odom_block_new:
  "publish_odom_block (RigidBodyPublisher_new ge V v cfg) time pose w =
     (if publishOdom cfg
      then Inr (w @ [OdometryPublished (odomTopicName cfg)
                 \<lparr>od_header = \<lparr>stamp = time, frame_id = parentFrameId cfg\<rparr>,
                  od_child_frame_id = childFrameId cfg,
                  od_pose = \<lparr>pwc_pose = ps_pose pose, pwc_covariance = replicate 36 0\<rparr>,
                  od_twist = TwistWithCovariance_init\<rparr>])
      else Inr w)"
  by (simp add: publish_odom_block_def RigidBodyPublisher_new_def Let_def Odometry_init_def
      Header_init_def PoseWithCovariance_init_def Pose_init_def Point_init_def
      Quaternion_init_def set_covariance_diagonal_zero)

lemma publish_tf_block_new:
  "publish_tf_block (RigidBodyPublisher_new ge V v cfg) time pose w =
     (if publishTf cfg
      then Inr (w @ [TransformSent
                 \<lparr>ts_header = \<lparr>stamp = time, frame_id = parentFrameId cfg\<rparr>,
                  ts_child_frame_id = childFrameId cfg,
                  ts_transform =
                    \<lparr>translation = \<lparr>v_x = p_x (position (ps_pose pose)),
                                     v_y = p_y (position (ps_pose pose)),
                                     v_z = p_z (position (ps_pose pose))\<rparr>,
                     rotation = orientation (ps_pose pose)\<rparr>\<rparr>])
      else Inr w)"
  by (simp add: publish_tf_block_def RigidBodyPublisher_new_def Let_def TransformStamped_init_def
      Header_init_def Transform_init_def Vector3_init_def)

lemmas blocks_new = publish_pose_block_new publish_pose2d_block_new publish_odom_block_new
  publish_tf_block_new

lemma publish_new_appends:
  "RigidBodyPublisher_publish getYaw (RigidBodyPublisher_new ge V v cfg) time body w
     = Inr (w @ emitted_by getYaw (RigidBodyPublisher_new ge V v cfg) time body)"
  by (simp add: emitted_by_def RigidBodyPublisher_publish_def blocks_new Let_def)

lemma odometry_messages_append:
  "odometry_messages (w @ w') = odometry_messages w @ odometry_messages w'"
  by (induction w rule: odometry_messages.induct) simp_all

lemma pose2d_messages_append:
  "pose2d_messages (w @ w') = pose2d_messages w @ pose2d_messages w'"
  by (induction w rule: pose2d_messages.induct) simp_all

section \<open>The dispatcher's map\<close>

lemma find_snoc:
  "List.find P (xs @ [y]) =
     (case List.find P xs of None \<Rightarrow> (if P y then Some y else None) | Some x \<Rightarrow> Some x)"
  by (induction xs) simp_all

text \<open>
  The loop of the constructor, from any starting map: a key holds the publisher of the
  last configuration that names it, and keeps its old entry when none does.
\<close>

lemma fold_upd_lookup:
  "fold (\<lambda>cfg m. m(rigidBodyId cfg \<mapsto> mk cfg)) configs m0 i =
     (case List.find (\<lambda>cfg. rigidBodyId cfg = i) (rev configs) of
        None \<Rightarrow> m0 i
      | Some cfg \<Rightarrow> Some (mk cfg))"
proof (induction configs arbitrary: m0)
  case Nil
  then show ?case by simp
next
  case (Cons c cs)
  have "fold (\<lambda>cfg m. m(rigidBodyId cfg \<mapsto> mk cfg)) (c # cs) m0 i
      = fold (\<lambda>cfg m. m(rigidBodyId cfg \<mapsto> mk cfg)) cs (m0(rigidBodyId c \<mapsto> mk c)) i"
    by (simp only: fold_simps o_apply)
  also have "\<dots> = (case List.find (\<lambda>cfg. rigidBodyId cfg = i) (rev cs) of
                       None \<Rightarrow> (m0(rigidBodyId c \<mapsto> mk c)) i
                     | Some cfg \<Rightarrow> Some (mk cfg))"
    by (rule Cons.IH)
  also have "\<dots> = (case List.find (\<lambda>cfg. rigidBodyId cfg = i) (rev (c # cs)) of
                       None \<Rightarrow> m0 i
                     | Some cfg \<Rightarrow> Some (mk cfg))"
    by (simp add: find_snoc split: option.splits)
  finally show ?case .
qed

lemma dispatcher_new_Some:
  "RigidBodyPublishDispatcher_new ge V v configs i = Some p \<Longrightarrow>
     \<exists>cfg. p = RigidBodyPublisher_new ge V v cfg"
  by (auto simp: RigidBodyPublishDispatcher_new_def fold_upd_lookup split: option.splits)

text \<open>
  The loop of the dispatcher over a map of constructed publishers: it never fails, and
  the world grows by what each sample's publisher hands over, in batch order.
\<close>

lemma dispatch_closed_form:
  assumes "\<And>i p. m i = Some p \<Longrightarrow> \<exists>cfg. p = RigidBodyPublisher_new ge V v cfg"
  shows "RigidBodyPublishDispatcher_publish getYaw m time rigidBodies w =
     Inr (w @ concat (map (\<lambda>rigidBody.
             case m (bodyId rigidBody) of
               None \<Rightarrow> []
             | Some publisher \<Rightarrow> emitted_by getYaw publisher time rigidBody) rigidBodies))"
proof (induction rigidBodies arbitrary: w)
  case Nil
  then show ?case by simp
next
  case (Cons b bs)
  show ?case
  proof (cases "m (bodyId b)")
    case None
    then show ?thesis by (simp add: Cons.IH)
  next
    case (Some p)
    with assms obtain cfg where "p = RigidBodyPublisher_new ge V v cfg" by blast
    with Some show ?thesis by (simp add: Cons.IH publish_new_appends)
  qed
qed

section \<open>Properties of the adapter, the publisher and the dispatcher\<close>

text \<open>
  C1. With the new-coordinates flag false, the adapter returns position \<open>(x, -z, y)\<close>
  and orientation \<open>(qx, -qz, qy, qw)\<close> for input position \<open>(x, y, z)\<close> and
  orientation \<open>(qx, qy, qz, qw)\<close>: the same swap on both.
\<close>

theorem getRosPose_old_convention:
  "ps_pose (getRosPose
      \<lparr>bodyId = i,
       body_pose = \<lparr>position = \<lparr>p_x = x, p_y = y, p_z = z\<rparr>,
                    orientation = \<lparr>q_x = qx, q_y = qy, q_z = qz, q_w = qw\<rparr>\<rparr>,
       isTrackingValid = v\<rparr> False)
   = \<lparr>position = \<lparr>p_x = x, p_y = float_neg z, p_z = y\<rparr>,
      orientation = \<lparr>q_x = qx, q_y = float_neg qz, q_z = qy, q_w = qw\<rparr>\<rparr>"
  by (simp add: getRosPose_def Let_def PoseStamped_init_def Pose_init_def
      Point_init_def Quaternion_init_def)

text \<open>
  C2. With the new-coordinates flag true, the pose returned by the adapter is the pose of
  the sample, component by component.
\<close>

theorem getRosPose_new_convention:
  "ps_pose (getRosPose body True) = body_pose body"
  by (simp add: getRosPose_def Let_def PoseStamped_init_def Pose_init_def
      Point_init_def Quaternion_init_def)

text \<open>
  C3, as the code has it. One call of the publish operation of a constructed publisher
  never fails, and it hands over no message to any sink (pose, planar pose, odometry,
  transform) if and only if the validity flag of the sample is false, or the position X
  of the sample is a NaN, or none of the four sinks is enabled in the configuration.
  Nothing else of the sample decides it: the statement holds for every sample, whatever
  its other components are.
\<close>

theorem publish_silent_iff:
  "\<exists>msgs. RigidBodyPublisher_publish getYaw
            (RigidBodyPublisher_new version_ge Version natNetVersion cfg) time body w
          = Inr (w @ msgs)
     \<and> (msgs = [] \<longleftrightarrow>
          \<not> isTrackingValid body \<or> float_isnan (p_x (position (body_pose body)))
          \<or> (\<not> publishPose cfg \<and> \<not> publishPose2d cfg \<and> \<not> publishOdom cfg \<and> \<not> publishTf cfg))"
  by (simp add: RigidBodyPublisher_publish_def blocks_new hasValidData_def float_ne_self Let_def)

text \<open>
  At a valid sample with a position X of \<open>1.0\<close> and the transform sink enabled a message
  is handed over; at the same sample with a NaN as position X none is; at a valid sample
  with a position X of \<open>1.0\<close> and a NaN as position Y a message is handed over.
\<close>

theorem publish_silent_iff_witness:
  "isTrackingValid (sample_body 1 True 0x3FF0000000000000)
   \<and> \<not> float_isnan (p_x (position (body_pose (sample_body 1 True 0x3FF0000000000000))))
   \<and> publishTf (sample_config 1 False False False True)
   \<and> RigidBodyPublisher_publish sample_getYaw
        (RigidBodyPublisher_new sample_version_ge sample_Version 300
           (sample_config 1 False False False True))
        5 (sample_body 1 True 0x3FF0000000000000) [] \<noteq> Inr []
   \<and> float_isnan (p_x (position (body_pose (sample_body 1 True 0x7FF8000000000000))))
   \<and> RigidBodyPublisher_publish sample_getYaw
        (RigidBodyPublisher_new sample_version_ge sample_Version 300
           (sample_config 1 False False False True))
        5 (sample_body 1 True 0x7FF8000000000000) [] = Inr []
   \<and> float_isnan (p_y (position (body_pose sample_body_nan_elsewhere)))
   \<and> RigidBodyPublisher_publish sample_getYaw
        (RigidBodyPublisher_new sample_version_ge sample_Version 300
           (sample_config 1 False False False True))
        5 sample_body_nan_elsewhere [] \<noteq> Inr []"
  using publish_silent_iff [where getYaw = sample_getYaw and version_ge = sample_version_ge
      and Version = sample_Version and natNetVersion = 300
      and cfg = "sample_config 1 False False False True" and time = 5
      and body = sample_body_nan_elsewhere and w = "[]"]
    publish_silent_iff [where getYaw = sample_getYaw and version_ge = sample_version_ge
      and Version = sample_Version and natNetVersion = 300
      and cfg = "sample_config 1 False False False True" and time = 5
      and body = "sample_body 1 True 0x3FF0000000000000" and w = "[]"]
    publish_silent_iff [where getYaw = sample_getYaw and version_ge = sample_version_ge
      and Version = sample_Version and natNetVersion = 300
      and cfg = "sample_config 1 False False False True" and time = 5
      and body = "sample_body 1 True 0x7FF8000000000000" and w = "[]"]
  by (auto simp: sample_body_def sample_body_nan_elsewhere_def sample_config_def
      float_isnan_def)

text \<open>
  C3 as it is stated fails where no sink is enabled: the sample is valid, its position X
  is \<open>1.0\<close>, and no message is handed over.
\<close>

theorem publish_silent_valid_sample_counterexample:
  "RigidBodyPublisher_publish sample_getYaw
     (RigidBodyPublisher_new sample_version_ge sample_Version 300
        (sample_config 1 False False False False))
     5 (sample_body 1 True 0x3FF0000000000000) [] = Inr []
   \<and> isTrackingValid (sample_body 1 True 0x3FF0000000000000)
   \<and> \<not> float_isnan (p_x (position (body_pose (sample_body 1 True 0x3FF0000000000000))))"
  by (simp add: RigidBodyPublisher_publish_def publish_pose_block_def publish_pose2d_block_def
      publish_odom_block_def publish_tf_block_def RigidBodyPublisher_new_def hasValidData_def
      float_ne_def float_isnan_def float_iszero_def sample_body_def sample_config_def Let_def)

text \<open>
  C4. The dispatcher goes through the batch in its order. A sample whose identifier is
  in the map adds what the publish operation of exactly that publisher hands over; a
  sample whose identifier is not in the map adds nothing; the run never fails.
\<close>

theorem dispatcher_routes_in_batch_order:
  "RigidBodyPublishDispatcher_publish getYaw
     (RigidBodyPublishDispatcher_new version_ge Version natNetVersion configs) time rigidBodies w =
   Inr (w @ concat (map (\<lambda>rigidBody.
           case RigidBodyPublishDispatcher_new version_ge Version natNetVersion configs
                  (bodyId rigidBody) of
             None \<Rightarrow> []
           | Some publisher \<Rightarrow> emitted_by getYaw publisher time rigidBody) rigidBodies))"
  by (rule dispatch_closed_form) (rule dispatcher_new_Some)

text \<open>
  A batch for the identifiers 2, 7 and 1 over the configurations for 1 (pose sink) and 2
  (planar-pose sink), at a version with the new convention: the planar pose of the first
  sample, nothing for 7, then the pose of the third sample.
\<close>

theorem dispatcher_routes_in_batch_order_witness:
  "RigidBodyPublishDispatcher_new sample_version_ge sample_Version 300
      [sample_config 1 True False False False, sample_config 2 False True False False] 7 = None
   \<and> RigidBodyPublishDispatcher_publish sample_getYaw
       (RigidBodyPublishDispatcher_new sample_version_ge sample_Version 300
          [sample_config 1 True False False False, sample_config 2 False True False False])
       5 [sample_body 2 True 0x3FF0000000000000, sample_body 7 True 0x3FF0000000000000,
          sample_body 1 True 0x4000000000000000] []
     = Inr [Pose2DPublished ''pose2d''
              \<lparr>pose2d_x = 0x3FF0000000000000, pose2d_y = 0x4000000000000000,
               pose2d_theta = 0x3FE0000000000000\<rparr>,
            PosePublished ''pose''
              \<lparr>ps_header = \<lparr>stamp = 5, frame_id = ''world''\<rparr>,
               ps_pose = body_pose (sample_body 1 True 0x4000000000000000)\<rparr>]"
  using dispatcher_routes_in_batch_order [of sample_getYaw sample_version_ge sample_Version 300
      "[sample_config 1 True False False False, sample_config 2 False True False False]"
      5 "[sample_body 2 True 0x3FF0000000000000, sample_body 7 True 0x3FF0000000000000,
          sample_body 1 True 0x4000000000000000]" "[]"]
  by (simp add: RigidBodyPublishDispatcher_new_def emitted_by_def
      RigidBodyPublisher_publish_def blocks_new hasValidData_def float_ne_self
      float_isnan_def Let_def new_sel sample_version_ge_def sample_Version_def sample_getYaw_def
      getRosPose_def PoseStamped_init_def Pose_init_def Point_init_def Quaternion_init_def
      Header_init_def sample_body_def sample_config_def)

text \<open>
  C5. For a sample that passes the validity check and the NaN check, with the odometry
  sink enabled, the call hands over exactly one odometry message; all 36 entries of its
  pose covariance are zero, and its twist (linear, angular and covariance) is all zero,
  as default-initialised.
\<close>

theorem odometry_covariance_and_twist_zero:
  assumes "isTrackingValid body"
    and "\<not> float_isnan (p_x (position (body_pose body)))"
    and "publishOdom cfg"
  shows "\<exists>w' m. RigidBodyPublisher_publish getYaw
             (RigidBodyPublisher_new version_ge Version natNetVersion cfg) time body w = Inr w'
           \<and> odometry_messages w' = odometry_messages w @ [m]
           \<and> pwc_covariance (od_pose m) = replicate 36 0
           \<and> od_twist m =
               \<lparr>twc_twist = \<lparr>linear = \<lparr>v_x = 0, v_y = 0, v_z = 0\<rparr>,
                              angular = \<lparr>v_x = 0, v_y = 0, v_z = 0\<rparr>\<rparr>,
                twc_covariance = replicate 36 0\<rparr>"
  using assms
  by (simp add: RigidBodyPublisher_publish_def blocks_new hasValidData_def float_ne_self Let_def
      odometry_messages_append TwistWithCovariance_init_def Twist_init_def Vector3_init_def)

text \<open>
  The sample at position X \<open>1.0\<close>, with the pose sink and the odometry sink enabled.
\<close>

theorem odometry_covariance_and_twist_zero_witness:
  "isTrackingValid (sample_body 1 True 0x3FF0000000000000)
   \<and> \<not> float_isnan (p_x (position (body_pose (sample_body 1 True 0x3FF0000000000000))))
   \<and> publishOdom (sample_config 1 True False True False)
   \<and> (\<exists>w' m. RigidBodyPublisher_publish sample_getYaw
          (RigidBodyPublisher_new sample_version_ge sample_Version 105
             (sample_config 1 True False True False))
          5 (sample_body 1 True 0x3FF0000000000000) [] = Inr w'
        \<and> odometry_messages w' = [m]
        \<and> pwc_covariance (od_pose m) = replicate 36 0
        \<and> od_twist m =
            \<lparr>twc_twist = \<lparr>linear = \<lparr>v_x = 0, v_y = 0, v_z = 0\<rparr>,
                           angular = \<lparr>v_x = 0, v_y = 0, v_z = 0\<rparr>\<rparr>,
             twc_covariance = replicate 36 0\<rparr>)"
proof -
  have valid: "isTrackingValid (sample_body 1 True 0x3FF0000000000000)"
    by (simp add: sample_body_def)
  have number: "\<not> float_isnan (p_x (position (body_pose (sample_body 1 True 0x3FF0000000000000))))"
    by (simp add: sample_body_def float_isnan_def)
  have enabled: "publishOdom (sample_config 1 True False True False)"
    by (simp add: sample_config_def)
  show ?thesis
    using valid number enabled
      odometry_covariance_and_twist_zero [OF valid number enabled,
        where getYaw = sample_getYaw and version_ge = sample_version_ge
          and Version = sample_Version and natNetVersion = 105 and time = 5 and w = "[]"]
    by simp
qed

text \<open>
  C6. For a sample that passes the validity check and the NaN check, with the
  planar-pose sink enabled, the call hands over exactly one planar pose: its X and Y are
  those of the adapted position, and its theta is the yaw (\<^verbatim>\<open>tf2::getYaw\<close>, the yaw
  extraction of the tf2 library) of the quaternion built from the adapted orientation.
\<close>

theorem pose2d_carries_normalized_xy_and_yaw:
  assumes "isTrackingValid body"
    and "\<not> float_isnan (p_x (position (body_pose body)))"
    and "publishPose2d cfg"
  shows "\<exists>w'. RigidBodyPublisher_publish getYaw
             (RigidBodyPublisher_new version_ge Version natNetVersion cfg) time body w = Inr w'
           \<and> pose2d_messages w' = pose2d_messages w @
               [let N = ps_pose (getRosPose body (version_ge natNetVersion (Version ''1.7'')))
                in \<lparr>pose2d_x = p_x (position N), pose2d_y = p_y (position N),
                    pose2d_theta = getYaw (q_x (orientation N), q_y (orientation N),
                                           q_z (orientation N), q_w (orientation N))\<rparr>]"
  using assms
  by (simp add: RigidBodyPublisher_publish_def blocks_new hasValidData_def float_ne_self Let_def
      pose2d_messages_append new_sel)

text \<open>
  Under the old convention the sample at \<open>(1.0, 2.0, 3.0)\<close> gives X \<open>1.0\<close> and Y
  \<open>-3.0\<close>, and the sample yaw reads the Y of the adapted quaternion, \<open>-0.5\<close>.
\<close>

theorem pose2d_carries_normalized_xy_and_yaw_witness:
  "isTrackingValid (sample_body 1 True 0x3FF0000000000000)
   \<and> \<not> float_isnan (p_x (position (body_pose (sample_body 1 True 0x3FF0000000000000))))
   \<and> publishPose2d (sample_config 1 False True False False)
   \<and> RigidBodyPublisher_publish sample_getYaw
        (RigidBodyPublisher_new sample_version_ge sample_Version 105
           (sample_config 1 False True False False))
        5 (sample_body 1 True 0x3FF0000000000000) []
      = Inr [Pose2DPublished ''pose2d''
              \<lparr>pose2d_x = 0x3FF0000000000000, pose2d_y = 0xC008000000000000,
               pose2d_theta = 0xBFE0000000000000\<rparr>]"
proof -
  have valid: "isTrackingValid (sample_body 1 True 0x3FF0000000000000)"
    by (simp add: sample_body_def)
  have number: "\<not> float_isnan (p_x (position (body_pose (sample_body 1 True 0x3FF0000000000000))))"
    by (simp add: sample_body_def float_isnan_def)
  have enabled: "publishPose2d (sample_config 1 False True False False)"
    by (simp add: sample_config_def)
  show ?thesis
    using valid number enabled
      pose2d_carries_normalized_xy_and_yaw [OF valid number enabled,
        where getYaw = sample_getYaw and version_ge = sample_version_ge
          and Version = sample_Version and natNetVersion = 105 and time = 5 and w = "[]"]
    by (simp add: RigidBodyPublisher_publish_def blocks_new hasValidData_def float_ne_self
        Let_def new_sel sample_getYaw_def sample_version_ge_def sample_Version_def
        getRosPose_def PoseStamped_init_def Pose_init_def Point_init_def Quaternion_init_def
        Header_init_def sample_body_def sample_config_def float_neg_def)
qed

text \<open>
  C7. The constructor resolves the convention from the version: the new convention
  exactly when the version is greater than or equal to \<^verbatim>\<open>Version("1.7")\<close>. Every call of
  the publish operation on the constructed publisher, for any time, sample and world,
  hands over only messages that carry the pose adapted under that resolved convention.
\<close>

theorem convention_resolved_at_construction:
  "useNewCoordinates (RigidBodyPublisher_new version_ge Version natNetVersion cfg)
     = version_ge natNetVersion (Version ''1.7'')
   \<and> (\<exists>msgs. RigidBodyPublisher_publish getYaw
          (RigidBodyPublisher_new version_ge Version natNetVersion cfg) time body w = Inr (w @ msgs)
        \<and> list_all (carries_pose getYaw
             (ps_pose (getRosPose body (version_ge natNetVersion (Version ''1.7''))))) msgs)"
  by (simp add: RigidBodyPublisher_publish_def blocks_new hasValidData_def float_ne_self Let_def
      new_sel)

text \<open>
  Version 1.5 resolves to the old convention and 1.7 to the new one; the pose published
  under 1.5 is \<open>(1.0, -3.0, 2.0)\<close> with orientation \<open>(0.5, -0.5, 0.5, 0.5)\<close>.
\<close>

theorem convention_resolved_at_construction_witness:
  "\<not> useNewCoordinates (RigidBodyPublisher_new sample_version_ge sample_Version 105
         (sample_config 1 True False False False))
   \<and> useNewCoordinates (RigidBodyPublisher_new sample_version_ge sample_Version 107
         (sample_config 1 True False False False))
   \<and> RigidBodyPublisher_publish sample_getYaw
        (RigidBodyPublisher_new sample_version_ge sample_Version 105
           (sample_config 1 True False False False))
        5 (sample_body 1 True 0x3FF0000000000000) []
      = Inr [PosePublished ''pose''
              \<lparr>ps_header = \<lparr>stamp = 5, frame_id = ''world''\<rparr>,
               ps_pose =
                 \<lparr>position = \<lparr>p_x = 0x3FF0000000000000, p_y = 0xC008000000000000,
                               p_z = 0x4000000000000000\<rparr>,
                  orientation = \<lparr>q_x = 0x3FE0000000000000, q_y = 0xBFE0000000000000,
                                 q_z = 0x3FE0000000000000, q_w = 0x3FE0000000000000\<rparr>\<rparr>\<rparr>]"
  using convention_resolved_at_construction [where getYaw = sample_getYaw
      and version_ge = sample_version_ge and Version = sample_Version and natNetVersion = 105
      and cfg = "sample_config 1 True False False False" and time = 5
      and body = "sample_body 1 True 0x3FF0000000000000" and w = "[]"]
    convention_resolved_at_construction [where getYaw = sample_getYaw
      and version_ge = sample_version_ge and Version = sample_Version and natNetVersion = 107
      and cfg = "sample_config 1 True False False False" and time = 5
      and body = "sample_body 1 True 0x3FF0000000000000" and w = "[]"]
  by (simp add: RigidBodyPublisher_publish_def blocks_new hasValidData_def float_ne_self
      float_isnan_def Let_def new_sel sample_version_ge_def sample_Version_def
      getRosPose_def PoseStamped_init_def Pose_init_def Point_init_def Quaternion_init_def
      Header_init_def sample_body_def sample_config_def float_neg_def)

text \<open>
  C8. The map built by the dispatcher's constructor holds, for an identifier, the
  publisher built from the last configuration in list order that has this identifier,
  and nothing when no configuration has it: one publisher for each distinct identifier
  of the list, later configurations overwriting earlier ones.
\<close>

theorem dispatcher_map_last_configuration_wins:
  "RigidBodyPublishDispatcher_new version_ge Version natNetVersion configs i
     = map_option (RigidBodyPublisher_new version_ge Version natNetVersion)
         (List.find (\<lambda>cfg. rigidBodyId cfg = i) (rev configs))
   \<and> dom (RigidBodyPublishDispatcher_new version_ge Version natNetVersion configs)
       = rigidBodyId ` set configs"
proof -
  have lookup: "RigidBodyPublishDispatcher_new version_ge Version natNetVersion configs j
     = map_option (RigidBodyPublisher_new version_ge Version natNetVersion)
         (List.find (\<lambda>cfg. rigidBodyId cfg = j) (rev configs))" for j
    by (simp add: RigidBodyPublishDispatcher_new_def fold_upd_lookup split: option.splits)
  have "dom (RigidBodyPublishDispatcher_new version_ge Version natNetVersion configs)
       = rigidBodyId ` set configs"
    by (auto simp: dom_def lookup find_None_iff image_iff)
  with lookup show ?thesis by simp
qed

text \<open>
  Two configurations for the identifier 1 around one for 2: the map holds the publisher
  of the second configuration for 1, and its keys are 1 and 2.
\<close>

theorem dispatcher_map_last_configuration_wins_witness:
  "RigidBodyPublishDispatcher_new sample_version_ge sample_Version 300
      [sample_config 1 True False False False, sample_config 2 False True False False,
       sample_config 1 False False False True] 1
     = Some (RigidBodyPublisher_new sample_version_ge sample_Version 300
               (sample_config 1 False False False True))
   \<and> dom (RigidBodyPublishDispatcher_new sample_version_ge sample_Version 300
      [sample_config 1 True False False False, sample_config 2 False True False False,
       sample_config 1 False False False True]) = {1, 2}"
  using dispatcher_map_last_configuration_wins [of sample_version_ge sample_Version 300
      "[sample_config 1 True False False False, sample_config 2 False True False False,
        sample_config 1 False False False True]" 1]
  by (simp add: sample_config_def insert_commute)

text \<open>
  C9. For both values of the flag the adapter leaves the position X component and the
  orientation W component as they are in the sample.
\<close>

theorem getRosPose_keeps_x_and_w:
  "p_x (position (ps_pose (getRosPose body newCoordinates))) = p_x (position (body_pose body))
   \<and> q_w (orientation (ps_pose (getRosPose body newCoordinates)))
       = q_w (orientation (body_pose body))"
  by (simp add: getRosPose_def Let_def PoseStamped_init_def Pose_init_def
      Point_init_def Quaternion_init_def)

text \<open>
  C10. The old-convention swap has order four: applied four times in succession it
  returns the original pose, and applied twice it negates the Y and Z components of
  position and orientation and fixes X and W.
\<close>

theorem getRosPose_old_order_four:
  "reapply_old (reapply_old (reapply_old (reapply_old body))) = body
   \<and> body_pose (reapply_old (reapply_old body))
       = \<lparr>position = \<lparr>p_x = p_x (position (body_pose body)),
                       p_y = float_neg (p_y (position (body_pose body))),
                       p_z = float_neg (p_z (position (body_pose body)))\<rparr>,
          orientation = \<lparr>q_x = q_x (orientation (body_pose body)),
                          q_y = float_neg (q_y (orientation (body_pose body))),
                          q_z = float_neg (q_z (orientation (body_pose body))),
                          q_w = q_w (orientation (body_pose body))\<rparr>\<rparr>"
  by (simp add: reapply_old_def with_pose_def getRosPose_def Let_def PoseStamped_init_def
      Pose_init_def Point_init_def Quaternion_init_def float_neg_involution)

end
